theory Spec2Isabelle
  imports Complex_Main
begin

section \<open>Python values\<close>

text \<open>
  Exceptions of the Python source are values. A handler that can raise returns, next to
  the agent state it leaves behind, either the exception or its return value: the
  mutations made before a \<^verbatim>\<open>raise\<close> stay in the state, as they do in Python.
\<close>

datatype py_error =
    KeyError string
  | AttributeError string
  | TypeError string
  | ValueError string
  | ZeroDivisionError

text \<open>Truthiness of an optional string (\<^verbatim>\<open>None\<close> and \<^verbatim>\<open>""\<close> are falsy).\<close>

fun truthy :: "string option \<Rightarrow> bool" where
  "truthy None = False"
| "truthy (Some s) = (s \<noteq> [])"

text \<open>
  A Python \<^verbatim>\<open>dict\<close> owned by an agent is an association list in insertion order with
  one entry per key: assigning to a present key keeps its position, a new key goes last.
\<close>

fun dict_get :: "('k \<times> 'v) list \<Rightarrow> 'k \<Rightarrow> 'v option" where
  "dict_get [] k = None"
| "dict_get ((k', v) # d) k = (if k' = k then Some v else dict_get d k)"

fun dict_set :: "('k \<times> 'v) list \<Rightarrow> 'k \<Rightarrow> 'v \<Rightarrow> ('k \<times> 'v) list" where
  "dict_set [] k v = [(k, v)]"
| "dict_set ((k', v') # d) k v = (if k' = k then (k, v) # d else (k', v') # dict_set d k v)"

fun dict_del :: "('k \<times> 'v) list \<Rightarrow> 'k \<Rightarrow> ('k \<times> 'v) list" where
  "dict_del [] k = []"
| "dict_del ((k', v') # d) k = (if k' = k then d else (k', v') # dict_del d k)"

text \<open>
  \<^verbatim>\<open>str(uuid.uuid4())\<close>: the n-th identifier an agent draws. The agent state counts the
  draws, so two draws never give the same string.
\<close>

fun uuid4 :: "nat \<Rightarrow> string" where
  "uuid4 n = ''uuid-'' @ replicate n (CHR ''i'')"

section \<open>Persistence models (app/models)\<close>

text \<open>\<^verbatim>\<open>class TransactionType(str, enum.Enum)\<close> of app/models/transaction.py.\<close>

datatype TransactionType = PURCHASE | SALE | ADJUSTMENT | TRANSFER | RETURN

text \<open>
  Attribute access \<^verbatim>\<open>TransactionType.NAME\<close>: a member of the enumeration, or
  \<^verbatim>\<open>AttributeError\<close> for a name the class does not define.
\<close>

fun TransactionType_attr :: "string \<Rightarrow> py_error + TransactionType" where
  "TransactionType_attr n =
     (if n = ''PURCHASE'' then Inr PURCHASE
      else if n = ''SALE'' then Inr SALE
      else if n = ''ADJUSTMENT'' then Inr ADJUSTMENT
      else if n = ''TRANSFER'' then Inr TRANSFER
      else if n = ''RETURN'' then Inr RETURN
      else Inl (AttributeError n))"

text \<open>\<^verbatim>\<open>class OrderStatus(str, enum.Enum)\<close> of app/models/order.py.\<close>

datatype OrderStatus = PENDING | CONFIRMED | SHIPPED | DELIVERED | CANCELED

text \<open>
  Lookup by name \<^verbatim>\<open>OrderStatus[name]\<close>: the member with that name, or \<^verbatim>\<open>KeyError\<close>.
\<close>

fun OrderStatus_getitem :: "string \<Rightarrow> py_error + OrderStatus" where
  "OrderStatus_getitem n =
     (if n = ''PENDING'' then Inr PENDING
      else if n = ''CONFIRMED'' then Inr CONFIRMED
      else if n = ''SHIPPED'' then Inr SHIPPED
      else if n = ''DELIVERED'' then Inr DELIVERED
      else if n = ''CANCELED'' then Inr CANCELED
      else Inl (KeyError n))"

fun OrderStatus_attr :: "string \<Rightarrow> py_error + OrderStatus" where
  "OrderStatus_attr n =
     (case OrderStatus_getitem n of Inl _ \<Rightarrow> Inl (AttributeError n) | Inr s \<Rightarrow> Inr s)"

text \<open>
  Rows of the tables. Primary keys drawn with \<^verbatim>\<open>uuid4\<close> and the timestamp columns are
  left out: no handler reads them back.
\<close>

record transaction =
  tx_product_id :: string
  tx_quantity_change :: int
  tx_type :: TransactionType
  tx_reason :: string
  tx_location_id :: string
  tx_reference_id :: string

record product =
  unit_price :: real
  minimum_stock :: int
  maximum_stock :: int

record order_item =
  oi_order_id :: string
  oi_product_id :: string
  oi_quantity :: int

text \<open>
  The database as one agent sees it. Every \<^verbatim>\<open>Inventory\<close> query of an agent filters on
  the agent's own location, so \<open>inventory\<close> maps a product id to the quantity of the
  row of that product at this location (\<open>None\<close>: the query's \<^verbatim>\<open>first()\<close> is \<^verbatim>\<open>None\<close>).
\<close>

record db =
  inventory :: "string \<rightharpoonup> int"
  transactions :: "transaction list"
  products :: "string \<rightharpoonup> product"
  orders :: "string \<rightharpoonup> OrderStatus"
  order_items :: "order_item list"

text \<open>
  The SQLAlchemy session \<^verbatim>\<open>self.db\<close>: \<open>work\<close> is what queries in the session see
  (changed attributes and added rows included), \<open>saved\<close> what the last commit wrote.
\<close>

record session =
  work :: db
  saved :: db

definition commit :: "session \<Rightarrow> session" where
  "commit s = s\<lparr>saved := work s\<rparr>"

definition rollback :: "session \<Rightarrow> session" where
  "rollback s = s\<lparr>work := saved s\<rparr>"

definition db_add_transaction :: "transaction \<Rightarrow> session \<Rightarrow> session" where
  "db_add_transaction t s = s\<lparr>work := (work s)\<lparr>transactions := transactions (work s) @ [t]\<rparr>\<rparr>"

definition set_quantity :: "string \<Rightarrow> int \<Rightarrow> session \<Rightarrow> session" where
  "set_quantity pid q s = s\<lparr>work := (work s)\<lparr>inventory := (inventory (work s))(pid \<mapsto> q)\<rparr>\<rparr>"

section \<open>Message envelopes\<close>

text \<open>
  An entry of the \<^verbatim>\<open>items\<close> list of a sale request or of a supply confirmation
  (\<open>None\<close>: the key is absent).
\<close>

record sale_item =
  item_product_id :: "string option"
  item_quantity :: "int option"

text \<open>
  The \<^verbatim>\<open>content\<close> dictionary of an envelope: one optional field per key that an agent
  reads or writes. In a message an agent receives, \<open>None\<close> means that the key is
  absent: the handlers read the fields with \<^verbatim>\<open>get\<close>, and the model gives an absent key
  the default of that call. A received message with an explicit null under a key is not
  represented. In a message an agent builds, \<open>None\<close> is an absent key or the \<^verbatim>\<open>None\<close>
  the source writes there (the \<^verbatim>\<open>store_id\<close> of a supply request).
\<close>

record content =
  c_transaction_id :: "string option"
  c_items :: "sale_item list"
  c_customer_id :: "string option"
  c_product_id :: "string option"
  c_quantity :: "int option"
  c_update_type :: "string option"
  c_reason :: "string option"
  c_request_id :: "string option"
  c_transfer_id :: "string option"
  c_order_id :: "string option"
  c_status :: "string option"
  c_store_id :: "string option"
  c_priority :: "string option"
  c_warehouse_id :: "string option"
  c_available_quantity :: "int option"
  c_requested_quantity :: "int option"

definition no_content :: content where
  "no_content = \<lparr>c_transaction_id = None, c_items = [], c_customer_id = None,
     c_product_id = None, c_quantity = None, c_update_type = None, c_reason = None,
     c_request_id = None, c_transfer_id = None, c_order_id = None, c_status = None,
     c_store_id = None, c_priority = None, c_warehouse_id = None,
     c_available_quantity = None, c_requested_quantity = None\<rparr>"

record envelope =
  sender :: string
  recipient :: string
  message_type :: string
  content :: content

section \<open>Store agent (app/agents/store_agent.py)\<close>

record shortfall =
  sf_product_id :: string
  sf_requested :: int
  sf_available :: int

text \<open>
  The dictionaries the store's handlers return, one constructor per shape:
  \<^verbatim>\<open>{"status": "error", "message": m}\<close>,
  \<^verbatim>\<open>{"status": "insufficient_inventory", "insufficient_items": l}\<close>,
  \<^verbatim>\<open>{"status": "success", "transaction_id": t}\<close>,
  \<^verbatim>\<open>{"status": "success", "product_id": p, "new_quantity": q}\<close>,
  \<^verbatim>\<open>{"status": "success", "order_id": o}\<close> and
  \<^verbatim>\<open>{"status": "acknowledged", "message": m}\<close>.
  Where the source appends the text of a caught exception to a message, the message is
  kept without it.
\<close>

datatype response =
    Error string
  | Insufficient_inventory "shortfall list"
  | Sale_success string
  | Inventory_updated string int
  | Order_updated string
  | Acknowledged string

record pending_tx =
  ptx_items :: "sale_item list"
  ptx_customer_id :: "string option"
  ptx_status :: string

record replenishment =
  r_product_id :: string
  r_quantity :: int
  r_priority :: string
  r_status :: string
  r_retry_count :: "int option"
  r_reference_id :: "string option"
  r_failure_reason :: "string option"

text \<open>
  The agent object. \<open>st_outbox\<close> collects, in order, the envelopes handed to
  \<^verbatim>\<open>send_message\<close> (which only logs them in app/agents/base.py); \<open>st_uuids\<close> counts the
  identifiers drawn.
\<close>

record store =
  store_id :: string
  st_db :: session
  pending_transactions :: "(string \<times> pending_tx) list"
  pending_replenishments :: "(string \<times> replenishment) list"
  st_outbox :: "envelope list"
  st_uuids :: nat

definition store_agent_id :: "string \<Rightarrow> string" where
  "store_agent_id sid = ''store_agent_'' @ sid"

definition send_message :: "store \<Rightarrow> envelope \<Rightarrow> store" where
  "send_message st m = st\<lparr>st_outbox := st_outbox st @ [m]\<rparr>"

subsection \<open>\<^verbatim>\<open>_request_replenishment\<close>\<close>

text \<open>
  The envelope of lines 544-555. The argument \<open>original_request_id\<close> of
  \<open>request_replenishment\<close> is \<open>Some r\<close> for a call with
  \<^verbatim>\<open>is_retry=True, original_request_id=r\<close> and \<open>None\<close> for a call with neither (the
  two forms the source uses).
\<close>

definition replenishment_envelope ::
  "string \<Rightarrow> string \<Rightarrow> string \<Rightarrow> int \<Rightarrow> string \<Rightarrow> envelope" where
  "replenishment_envelope sid request_id product_id quantity priority =
     \<lparr>sender = store_agent_id sid, recipient = ''warehouse_agent_main'',
      message_type = ''REPLENISHMENT_REQUEST'',
      content = no_content\<lparr>c_request_id := Some request_id, c_product_id := Some product_id,
        c_quantity := Some quantity, c_store_id := Some sid, c_priority := Some priority\<rparr>\<rparr>"

definition request_replenishment ::
  "store \<Rightarrow> string \<Rightarrow> int \<Rightarrow> string \<Rightarrow> string option \<Rightarrow> store \<times> string" where
  "request_replenishment st product_id quantity priority original_request_id =
     (let request_id = (case original_request_id of Some r \<Rightarrow> r | None \<Rightarrow> uuid4 (st_uuids st));
          st1 = (case original_request_id of Some r \<Rightarrow> st
                 | None \<Rightarrow> st\<lparr>st_uuids := Suc (st_uuids st)\<rparr>);
          st2 = (if dict_get (pending_replenishments st1) request_id = None
                 then st1\<lparr>pending_replenishments :=
                        dict_set (pending_replenishments st1) request_id
                          \<lparr>r_product_id = product_id, r_quantity = quantity,
                           r_priority = priority, r_status = ''pending'',
                           r_retry_count =
                             Some (case original_request_id of Some r \<Rightarrow> 1 | None \<Rightarrow> 0),
                           r_reference_id = None, r_failure_reason = None\<rparr>\<rparr>
                 else st1)
      in (send_message st2
            (replenishment_envelope (store_id st) request_id product_id quantity priority),
          request_id))"

subsection \<open>\<^verbatim>\<open>_check_reorder_needed\<close>\<close>

definition pending_quantity :: "store \<Rightarrow> string \<Rightarrow> int" where
  "pending_quantity st product_id =
     sum_list (map r_quantity
       (filter (\<lambda>req. r_product_id req = product_id \<and> r_status req = ''pending'')
          (map snd (pending_replenishments st))))"

definition check_reorder_needed :: "store \<Rightarrow> string \<Rightarrow> store" where
  "check_reorder_needed st product_id =
     (case inventory (work (st_db st)) product_id of
        None \<Rightarrow> st
      | Some quantity \<Rightarrow>
          (case products (work (st_db st)) product_id of
             None \<Rightarrow> st
           | Some pr \<Rightarrow>
               if quantity \<le> minimum_stock pr
               then (let order_qty = max 10 (minimum_stock pr * 4)
                     in if pending_quantity st product_id = 0
                        then fst (request_replenishment st product_id order_qty ''HIGH'' None)
                        else st)
               else st))"

subsection \<open>\<^verbatim>\<open>_process_sale\<close>\<close>

datatype sale_abort = Short string | Raised py_error

text \<open>
  The loop of lines 392-424 on the session. It stops at the first item the store cannot
  cover (\<open>Short\<close>, the early return of line 404) or at an exception (\<open>Raised\<close>);
  \<^verbatim>\<open>item["product_id"]\<close> and \<^verbatim>\<open>item["quantity"]\<close> raise for an absent key.
\<close>

fun sale_loop :: "string \<Rightarrow> string \<Rightarrow> sale_item list \<Rightarrow> session \<Rightarrow> sale_abort + session" where
  "sale_loop sid transaction_id [] s = Inr s"
| "sale_loop sid transaction_id (item # items) s =
     (case item_product_id item of
        None \<Rightarrow> Inl (Raised (KeyError ''product_id''))
      | Some product_id \<Rightarrow>
          (case item_quantity item of
             None \<Rightarrow> Inl (Raised (KeyError ''quantity''))
           | Some quantity \<Rightarrow>
               (case inventory (work s) product_id of
                  None \<Rightarrow> Inl (Short product_id)
                | Some q \<Rightarrow>
                    if q < quantity then Inl (Short product_id)
                    else (case TransactionType_attr ''SALE'' of
                            Inl e \<Rightarrow> Inl (Raised e)
                          | Inr ty \<Rightarrow>
                              sale_loop sid transaction_id items
                                (db_add_transaction
                                   \<lparr>tx_product_id = product_id, tx_quantity_change = - quantity,
                                    tx_type = ty, tx_reason = ''Sale '' @ transaction_id,
                                    tx_location_id = sid, tx_reference_id = transaction_id\<rparr>
                                   (set_quantity product_id (q - quantity) s))))))"

definition process_sale :: "store \<Rightarrow> string \<Rightarrow> store \<times> response" where
  "process_sale st transaction_id =
     (case dict_get (pending_transactions st) transaction_id of
        None \<Rightarrow> (st, Error (''Unknown transaction: '' @ transaction_id))
      | Some tx \<Rightarrow>
          (case sale_loop (store_id st) transaction_id (ptx_items tx) (st_db st) of
             Inl (Short product_id) \<Rightarrow>
               (st\<lparr>st_db := rollback (st_db st)\<rparr>,
                Error (''Insufficient inventory for product '' @ product_id))
           | Inl (Raised e) \<Rightarrow>
               (st\<lparr>st_db := rollback (st_db st)\<rparr>, Error ''Error processing sale'')
           | Inr s \<Rightarrow>
               (foldl check_reorder_needed
                  (st\<lparr>st_db := commit s,
                      pending_transactions :=
                        dict_set (pending_transactions st) transaction_id
                          (tx\<lparr>ptx_status := ''completed''\<rparr>)\<rparr>)
                  (List.map_filter item_product_id (ptx_items tx)),
                Sale_success transaction_id)))"

subsection \<open>\<^verbatim>\<open>_handle_sale_request\<close>\<close>

text \<open>The loop of lines 103-123: the shortfalls and the valid items, both in order.\<close>

fun scan_items ::
  "(string \<rightharpoonup> int) \<Rightarrow> sale_item list \<Rightarrow> shortfall list \<Rightarrow> sale_item list
     \<Rightarrow> shortfall list \<times> sale_item list" where
  "scan_items stock [] insufficient_items valid_items = (insufficient_items, valid_items)"
| "scan_items stock (item # items) insufficient_items valid_items =
     (let quantity = (case item_quantity item of None \<Rightarrow> 0 | Some q \<Rightarrow> q)
      in case item_product_id item of
           None \<Rightarrow> scan_items stock items insufficient_items valid_items
         | Some product_id \<Rightarrow>
             if product_id = [] \<or> quantity \<le> 0
             then scan_items stock items insufficient_items valid_items
             else (case stock product_id of
                     None \<Rightarrow>
                       scan_items stock items
                         (insufficient_items @
                            [\<lparr>sf_product_id = product_id, sf_requested = quantity,
                              sf_available = 0\<rparr>])
                         valid_items
                   | Some q \<Rightarrow>
                       if q < quantity
                       then scan_items stock items
                              (insufficient_items @
                                 [\<lparr>sf_product_id = product_id, sf_requested = quantity,
                                   sf_available = q\<rparr>])
                              valid_items
                       else scan_items stock items insufficient_items (valid_items @ [item])))"

definition handle_sale_request :: "store \<Rightarrow> envelope \<Rightarrow> store \<times> response" where
  "handle_sale_request st message =
     (let c = content message; items = c_items c
      in case c_transaction_id c of
           None \<Rightarrow> (st, Error ''Invalid sale request: transaction_id and items required'')
         | Some transaction_id \<Rightarrow>
             if transaction_id = [] \<or> items = []
             then (st, Error ''Invalid sale request: transaction_id and items required'')
             else (case scan_items (inventory (work (st_db st))) items [] [] of
                     (insufficient_items, valid_items) \<Rightarrow>
                       if insufficient_items \<noteq> []
                       then (st, Insufficient_inventory insufficient_items)
                       else if valid_items = []
                       then (st, Error ''No valid items in sale request'')
                       else process_sale
                              (st\<lparr>pending_transactions :=
                                   dict_set (pending_transactions st) transaction_id
                                     \<lparr>ptx_items = valid_items,
                                      ptx_customer_id = c_customer_id c,
                                      ptx_status = ''pending''\<rparr>\<rparr>)
                              transaction_id))"

subsection \<open>\<^verbatim>\<open>_handle_inventory_update\<close>\<close>

text \<open>
  Lines 187-211: the session after the quantity change, or \<open>None\<close> for the early return
  of line 208 (no row, and the update is not an \<^verbatim>\<open>ADD\<close>).
\<close>

definition apply_update :: "string \<Rightarrow> string \<Rightarrow> int \<Rightarrow> session \<Rightarrow> session option" where
  "apply_update update_type product_id quantity s =
     (case inventory (work s) product_id of
        Some old_quantity \<Rightarrow>
          Some (if update_type = ''ADD''
                then set_quantity product_id (old_quantity + quantity) s
                else if update_type = ''REMOVE''
                then set_quantity product_id (max 0 (old_quantity - quantity)) s
                else s)
      | None \<Rightarrow>
          if update_type = ''ADD'' then Some (set_quantity product_id quantity s) else None)"

text \<open>
  \<^verbatim>\<open>reference_id = request_id or transfer_id or str(uuid.uuid4())\<close>, with the number of
  identifiers drawn after it.
\<close>

definition reference_of :: "string option \<Rightarrow> string option \<Rightarrow> nat \<Rightarrow> string \<times> nat" where
  "reference_of request_id transfer_id n =
     (case request_id of
        Some r \<Rightarrow> if r \<noteq> [] then (r, n)
                  else (case transfer_id of
                          Some t \<Rightarrow> if t \<noteq> [] then (t, n) else (uuid4 n, Suc n)
                        | None \<Rightarrow> (uuid4 n, Suc n))
      | None \<Rightarrow> (case transfer_id of
                   Some t \<Rightarrow> if t \<noteq> [] then (t, n) else (uuid4 n, Suc n)
                 | None \<Rightarrow> (uuid4 n, Suc n)))"

definition mark_fulfilled ::
  "string option \<Rightarrow> (string \<times> replenishment) list \<Rightarrow> (string \<times> replenishment) list" where
  "mark_fulfilled request_id pend =
     (case request_id of
        None \<Rightarrow> pend
      | Some r \<Rightarrow>
          (case dict_get pend r of
             None \<Rightarrow> pend
           | Some req \<Rightarrow> if r = [] then pend
                         else dict_set pend r (req\<lparr>r_status := ''fulfilled''\<rparr>)))"

definition handle_inventory_update :: "store \<Rightarrow> envelope \<Rightarrow> store \<times> (py_error + response)" where
  "handle_inventory_update st message =
     (let c = content message;
          quantity = (case c_quantity c of None \<Rightarrow> 0 | Some q \<Rightarrow> q);
          update_type = (case c_update_type c of None \<Rightarrow> ''ADD'' | Some u \<Rightarrow> u);
          reason = (case c_reason c of None \<Rightarrow> ''Warehouse transfer'' | Some r \<Rightarrow> r)
      in case c_product_id c of
           None \<Rightarrow>
             (st, Inr (Error ''Invalid inventory update: product_id and quantity required''))
         | Some product_id \<Rightarrow>
             if product_id = [] \<or> quantity = 0
             then (st, Inr (Error ''Invalid inventory update: product_id and quantity required''))
             else (case apply_update update_type product_id quantity (st_db st) of
                     None \<Rightarrow>
                       (st, Inr (Error (''Cannot remove inventory for non-existent product: ''
                                          @ product_id)))
                   | Some s1 \<Rightarrow>
                       (case TransactionType_attr
                               (if update_type = ''ADD'' then ''DELIVERY'' else ''TRANSFER'') of
                          Inl e \<Rightarrow> (st\<lparr>st_db := s1\<rparr>, Inl e)
                        | Inr transaction_type \<Rightarrow>
                            (case reference_of (c_request_id c) (c_transfer_id c) (st_uuids st) of
                               (reference_id, n) \<Rightarrow>
                                 (let s2 = commit (db_add_transaction
                                        \<lparr>tx_product_id = product_id,
                                         tx_quantity_change =
                                           (if update_type = ''ADD'' then quantity else - quantity),
                                         tx_type = transaction_type, tx_reason = reason,
                                         tx_location_id = store_id st,
                                         tx_reference_id = reference_id\<rparr> s1)
                                  in (st\<lparr>st_db := s2, st_uuids := n,
                                         pending_replenishments :=
                                           mark_fulfilled (c_request_id c)
                                             (pending_replenishments st)\<rparr>,
                                      Inr (Inventory_updated product_id
                                             (case inventory (work s2) product_id of
                                                Some q \<Rightarrow> q | None \<Rightarrow> 0))))))))"

subsection \<open>\<^verbatim>\<open>_handle_order_update\<close>\<close>

text \<open>The loop of lines 283-304 over the items of the order.\<close>

fun return_items :: "string \<Rightarrow> string \<Rightarrow> order_item list \<Rightarrow> session \<Rightarrow> py_error + session" where
  "return_items sid order_id [] s = Inr s"
| "return_items sid order_id (oi # ois) s =
     (case inventory (work s) (oi_product_id oi) of
        None \<Rightarrow> return_items sid order_id ois s
      | Some q \<Rightarrow>
          (case TransactionType_attr ''RETURN'' of
             Inl e \<Rightarrow> Inl e
           | Inr ty \<Rightarrow>
               return_items sid order_id ois
                 (db_add_transaction
                    \<lparr>tx_product_id = oi_product_id oi, tx_quantity_change = oi_quantity oi,
                     tx_type = ty, tx_reason = ''Order cancelled: '' @ order_id,
                     tx_location_id = sid, tx_reference_id = order_id\<rparr>
                    (set_quantity (oi_product_id oi) (q + oi_quantity oi) s))))"

definition set_order_status :: "string \<Rightarrow> OrderStatus \<Rightarrow> session \<Rightarrow> session" where
  "set_order_status order_id status s =
     s\<lparr>work := (work s)\<lparr>orders := (orders (work s))(order_id \<mapsto> status)\<rparr>\<rparr>"

text \<open>
  Lines 274-306, the body of the \<^verbatim>\<open>try\<close>: the new status is looked up by name and
  assigned first; the test of line 280 then reads \<^verbatim>\<open>order.status\<close> of the updated row.
\<close>

definition order_update_body :: "string \<Rightarrow> string \<Rightarrow> string \<Rightarrow> session \<Rightarrow> py_error + session" where
  "order_update_body sid order_id status s =
     (case OrderStatus_getitem status of
        Inl e \<Rightarrow> Inl e
      | Inr new_status \<Rightarrow>
          (let s1 = set_order_status order_id new_status s
           in case OrderStatus_attr ''DELIVERED'' of
                Inl e \<Rightarrow> (if status = ''CANCELLED'' then Inl e else Inr (commit s1))
              | Inr delivered \<Rightarrow>
                  if status = ''CANCELLED'' \<and> orders (work s1) order_id \<noteq> Some delivered
                  then (case return_items sid order_id
                               (filter (\<lambda>oi. oi_order_id oi = order_id) (order_items (work s1)))
                               s1 of
                          Inl e \<Rightarrow> Inl e
                        | Inr s2 \<Rightarrow> Inr (commit s2))
                  else Inr (commit s1)))"

definition handle_order_update :: "store \<Rightarrow> envelope \<Rightarrow> store \<times> response" where
  "handle_order_update st message =
     (let c = content message
      in case c_order_id c of
           None \<Rightarrow> (st, Error ''Invalid order update: order_id and status required'')
         | Some order_id \<Rightarrow>
             (case c_status c of
                None \<Rightarrow> (st, Error ''Invalid order update: order_id and status required'')
              | Some status \<Rightarrow>
                  if order_id = [] \<or> status = []
                  then (st, Error ''Invalid order update: order_id and status required'')
                  else (case orders (work (st_db st)) order_id of
                          None \<Rightarrow> (st, Error (''Unknown order: '' @ order_id))
                        | Some old_status \<Rightarrow>
                            (case order_update_body (store_id st) order_id status (st_db st) of
                               Inl e \<Rightarrow>
                                 (st\<lparr>st_db := rollback (st_db st)\<rparr>, Error ''Error updating order'')
                             | Inr s \<Rightarrow> (st\<lparr>st_db := s\<rparr>, Order_updated order_id)))))"

subsection \<open>\<^verbatim>\<open>_handle_transfer_failed\<close>\<close>

text \<open>
  The first entry of \<^verbatim>\<open>pending_replenishments\<close>, in the dictionary's order, whose
  \<^verbatim>\<open>reference_id\<close> equals the failed transfer's id (line 338).
\<close>

fun find_reference ::
  "(string \<times> replenishment) list \<Rightarrow> string \<Rightarrow> (string \<times> replenishment) option" where
  "find_reference [] transfer_id = None"
| "find_reference ((request_id, request) # d) transfer_id =
     (if r_reference_id request = Some transfer_id then Some (request_id, request)
      else find_reference d transfer_id)"

definition retry_allowed :: "replenishment \<Rightarrow> bool" where
  "retry_allowed request = (case r_retry_count request of None \<Rightarrow> True | Some n \<Rightarrow> n < 3)"

definition handle_transfer_failed :: "store \<Rightarrow> envelope \<Rightarrow> store \<times> response" where
  "handle_transfer_failed st message =
     (let c = content message;
          reason = (case c_reason c of None \<Rightarrow> ''Unknown reason'' | Some r \<Rightarrow> r);
          invalid = Error
            ''Invalid transfer failed notification: transfer_id and product_id required''
      in case c_transfer_id c of
           None \<Rightarrow> (st, invalid)
         | Some transfer_id \<Rightarrow>
             (case c_product_id c of
                None \<Rightarrow> (st, invalid)
              | Some product_id \<Rightarrow>
                  if transfer_id = [] \<or> product_id = [] then (st, invalid)
                  else (case find_reference (pending_replenishments st) transfer_id of
                          None \<Rightarrow> (st, Acknowledged ''Transfer failure acknowledged'')
                        | Some (request_id, request) \<Rightarrow>
                            (let failed = request\<lparr>r_status := ''failed'',
                                                  r_failure_reason := Some reason\<rparr>;
                                 ack = Acknowledged
                                   (''Transfer failure processed for request '' @ request_id)
                             in if retry_allowed failed
                                then (let counted = failed\<lparr>r_retry_count :=
                                            Some ((case r_retry_count failed of
                                                     None \<Rightarrow> 0 | Some n \<Rightarrow> n) + 1)\<rparr>;
                                          priority = (if r_priority counted = ''HIGH''
                                                      then ''MEDIUM'' else ''LOW'')
                                      in (fst (request_replenishment
                                                 (st\<lparr>pending_replenishments :=
                                                      dict_set (pending_replenishments st)
                                                        request_id counted\<rparr>)
                                                 product_id (r_quantity counted) priority
                                                 (Some request_id)),
                                          ack))
                                else (st\<lparr>pending_replenishments :=
                                          dict_set (pending_replenishments st) request_id failed\<rparr>,
                                      ack)))))"

subsection \<open>\<^verbatim>\<open>process_message\<close>\<close>

definition store_process_message ::
  "store \<Rightarrow> envelope \<Rightarrow> store \<times> (py_error + response option)" where
  "store_process_message st message =
     (if message_type message = ''SALE_REQUEST''
      then (case handle_sale_request st message of (st', r) \<Rightarrow> (st', Inr (Some r)))
      else if message_type message = ''INVENTORY_UPDATE''
      then (case handle_inventory_update st message of
              (st', Inl e) \<Rightarrow> (st', Inl e)
            | (st', Inr r) \<Rightarrow> (st', Inr (Some r)))
      else if message_type message = ''ORDER_UPDATE''
      then (case handle_order_update st message of (st', r) \<Rightarrow> (st', Inr (Some r)))
      else if message_type message = ''TRANSFER_FAILED''
      then (case handle_transfer_failed st message of (st', r) \<Rightarrow> (st', Inr (Some r)))
      else (st, Inr None))"

section \<open>Warehouse agent (app/agents/warehouse_agent.py)\<close>

record transfer =
  t_product_id :: string
  t_store_id :: "string option"
  t_requested_quantity :: int
  t_available_quantity :: int
  t_priority :: string
  t_status :: "string option"
  t_reason :: "string option"

record supplier_order =
  so_product_id :: string
  so_quantity :: "int option"
  so_store_id :: "string option"
  so_status :: "string option"

record warehouse =
  warehouse_id :: string
  wh_db :: session
  pending_transfers :: "(string \<times> transfer) list"
  pending_orders :: "(string \<times> supplier_order) list"
  transfer_priorities :: "(string \<times> real) list"
  wh_outbox :: "envelope list"
  wh_uuids :: nat

definition warehouse_agent_id :: "string \<Rightarrow> string" where
  "warehouse_agent_id wid = ''warehouse_agent_'' @ wid"

definition wh_send_message :: "warehouse \<Rightarrow> envelope \<Rightarrow> warehouse" where
  "wh_send_message wh m = wh\<lparr>wh_outbox := wh_outbox wh @ [m]\<rparr>"

text \<open>An optional string inside an f-string: \<^verbatim>\<open>None\<close> prints as \<^verbatim>\<open>None\<close>.\<close>

fun fmt :: "string option \<Rightarrow> string" where
  "fmt None = ''None''"
| "fmt (Some s) = s"

subsection \<open>\<^verbatim>\<open>_calculate_priority_score\<close>\<close>

text \<open>
  A finite float is the real number it denotes, so floats compare as reals do. The float
  operations round, and the model does not fix how: the operations the score uses are
  the fields of \<open>float_ops\<close>, a parameter of the score and of what computes it.
  \<open>f_truediv\<close> is \<^verbatim>\<open>/\<close> on two integers, \<open>f_div\<close>, \<open>f_add\<close> and \<open>f_mul\<close> are
  \<^verbatim>\<open>/\<close>, \<^verbatim>\<open>+\<close> and \<^verbatim>\<open>*\<close> on floats. The constants 0.5, 1.0, 2.0, 10, 50 and 100 are
  floats. NaN and the infinities are not represented.
  \<^verbatim>\<open>available_quantity / requested_quantity\<close> raises for a zero divisor;
  \<^verbatim>\<open>base_score * fulfillment_pct * value_factor\<close> multiplies from the left.
\<close>

record float_ops =
  f_truediv :: "int \<Rightarrow> int \<Rightarrow> real"
  f_div :: "real \<Rightarrow> real \<Rightarrow> real"
  f_add :: "real \<Rightarrow> real \<Rightarrow> real"
  f_mul :: "real \<Rightarrow> real \<Rightarrow> real"

definition priority_values :: "string \<Rightarrow> real option" where
  "priority_values priority =
     (if priority = ''HIGH'' then Some 100
      else if priority = ''MEDIUM'' then Some 50
      else if priority = ''LOW'' then Some 10
      else None)"

definition calculate_priority_score ::
  "float_ops \<Rightarrow> string \<Rightarrow> product \<Rightarrow> int \<Rightarrow> int \<Rightarrow> py_error + real" where
  "calculate_priority_score fl priority pr available_quantity requested_quantity =
     (let base_score = (case priority_values priority of Some b \<Rightarrow> b | None \<Rightarrow> 50)
      in if requested_quantity = 0 then Inl ZeroDivisionError
         else (let fulfillment_pct =
                     min 1 (f_truediv fl available_quantity requested_quantity);
                   value_factor = min 2 (f_add fl (f_div fl (unit_price pr) 100) (1 / 2))
               in Inr (f_mul fl (f_mul fl base_score fulfillment_pct) value_factor)))"

subsection \<open>\<^verbatim>\<open>_request_from_supplier\<close>\<close>

definition request_from_supplier ::
  "warehouse \<Rightarrow> string \<Rightarrow> int option \<Rightarrow> string option \<Rightarrow> warehouse" where
  "request_from_supplier wh product_id quantity sid =
     (let wh1 = wh_send_message wh
            \<lparr>sender = warehouse_agent_id (warehouse_id wh), recipient = ''supplier_agent'',
             message_type = ''SUPPLY_REQUEST'',
             content = no_content\<lparr>c_product_id := Some product_id, c_quantity := quantity,
               c_warehouse_id := Some (warehouse_id wh), c_store_id := sid\<rparr>\<rparr>
      in wh1\<lparr>pending_orders :=
               dict_set (pending_orders wh1) (uuid4 (wh_uuids wh1))
                 \<lparr>so_product_id = product_id, so_quantity = quantity, so_store_id = sid,
                  so_status = Some ''REQUESTED''\<rparr>,
             wh_uuids := Suc (wh_uuids wh1)\<rparr>)"

subsection \<open>\<^verbatim>\<open>_handle_inventory_request\<close>\<close>

definition inventory_response :: "warehouse \<Rightarrow> envelope \<Rightarrow> content \<Rightarrow> envelope" where
  "inventory_response wh message c =
     \<lparr>sender = warehouse_agent_id (warehouse_id wh), recipient = sender message,
      message_type = ''INVENTORY_RESPONSE'', content = c\<rparr>"

text \<open>
  Lines 102-117 and 151-166: the transfer record is stored under a fresh id, then the
  score is computed and stored. When the score raises, the record is already stored.
\<close>

definition enqueue_transfer ::
  "float_ops \<Rightarrow> warehouse \<Rightarrow> string \<Rightarrow> string option \<Rightarrow> int \<Rightarrow> int \<Rightarrow> string \<Rightarrow> product
     \<Rightarrow> warehouse \<times> (py_error + string)" where
  "enqueue_transfer fl wh product_id sid requested_quantity available_quantity priority pr =
     (let transfer_id = uuid4 (wh_uuids wh);
          wh1 = wh\<lparr>wh_uuids := Suc (wh_uuids wh),
                   pending_transfers :=
                     dict_set (pending_transfers wh) transfer_id
                       \<lparr>t_product_id = product_id, t_store_id = sid,
                        t_requested_quantity = requested_quantity,
                        t_available_quantity = available_quantity,
                        t_priority = priority, t_status = Some ''PENDING'',
                        t_reason = None\<rparr>\<rparr>
      in case calculate_priority_score fl priority pr available_quantity requested_quantity of
           Inl e \<Rightarrow> (wh1, Inl e)
         | Inr priority_score \<Rightarrow>
             (wh1\<lparr>transfer_priorities :=
                    dict_set (transfer_priorities wh1) transfer_id priority_score\<rparr>,
              Inr transfer_id))"

definition handle_inventory_request ::
  "float_ops \<Rightarrow> warehouse \<Rightarrow> envelope \<Rightarrow> warehouse \<times> (py_error + envelope)" where
  "handle_inventory_request fl wh message =
     (let c = content message;
          sid = c_store_id c;
          priority = (case c_priority c of None \<Rightarrow> ''MEDIUM'' | Some p \<Rightarrow> p);
          rejected = inventory_response wh message
            (no_content\<lparr>c_product_id := c_product_id c, c_status := Some ''REJECTED'',
               c_reason := Some ''Product not found''\<rparr>)
      in case c_product_id c of
           None \<Rightarrow> (wh, Inr rejected)
         | Some product_id \<Rightarrow>
             (case products (work (wh_db wh)) product_id of
                None \<Rightarrow> (wh, Inr rejected)
              | Some pr \<Rightarrow>
                  (case inventory (work (wh_db wh)) product_id of
                     None \<Rightarrow>
                       (request_from_supplier wh product_id (c_quantity c) sid,
                        Inr (inventory_response wh message
                               (no_content\<lparr>c_product_id := Some product_id,
                                  c_status := Some ''BACKORDERED'',
                                  c_reason := Some
                                    ''Insufficient inventory, order placed with supplier'',
                                  c_available_quantity := Some 0,
                                  c_requested_quantity := c_quantity c\<rparr>)))
                   | Some stock \<Rightarrow>
                       (case c_quantity c of
                          None \<Rightarrow> (wh, Inl (TypeError ''<''))
                        | Some requested_quantity \<Rightarrow>
                            if stock < requested_quantity
                            then (if stock > 0
                                  then (case enqueue_transfer fl wh product_id sid
                                               requested_quantity stock priority pr of
                                          (wh1, Inl e) \<Rightarrow> (wh1, Inl e)
                                        | (wh1, Inr transfer_id) \<Rightarrow>
                                            (wh1, Inr (inventory_response wh message
                                               (no_content\<lparr>c_product_id := Some product_id,
                                                  c_status := Some ''PARTIAL'',
                                                  c_transfer_id := Some transfer_id,
                                                  c_available_quantity := Some stock,
                                                  c_requested_quantity :=
                                                    Some requested_quantity\<rparr>))))
                                  else (request_from_supplier wh product_id
                                          (Some requested_quantity) sid,
                                        Inr (inventory_response wh message
                                               (no_content\<lparr>c_product_id := Some product_id,
                                                  c_status := Some ''BACKORDERED'',
                                                  c_reason := Some
                                                    ''Insufficient inventory, order placed with supplier'',
                                                  c_available_quantity := Some stock,
                                                  c_requested_quantity :=
                                                    Some requested_quantity\<rparr>))))
                            else (case enqueue_transfer fl wh product_id sid
                                         requested_quantity requested_quantity priority pr of
                                    (wh1, Inl e) \<Rightarrow> (wh1, Inl e)
                                  | (wh1, Inr transfer_id) \<Rightarrow>
                                      (wh1, Inr (inventory_response wh message
                                         (no_content\<lparr>c_product_id := Some product_id,
                                            c_status := Some ''APPROVED'',
                                            c_transfer_id := Some transfer_id,
                                            c_quantity := Some requested_quantity\<rparr>))))))))"

subsection \<open>\<^verbatim>\<open>_handle_supply_confirmation\<close>\<close>

fun notify_available ::
  "string \<Rightarrow> string option \<Rightarrow> sale_item list \<Rightarrow> warehouse \<Rightarrow> warehouse" where
  "notify_available order_id sid [] wh = wh"
| "notify_available order_id sid (item # items) wh =
     notify_available order_id sid items
       (if truthy sid
        then wh_send_message wh
               \<lparr>sender = warehouse_agent_id (warehouse_id wh),
                recipient = ''store_agent_'' @ fmt sid,
                message_type = ''INVENTORY_AVAILABLE'',
                content = no_content\<lparr>c_product_id := item_product_id item,
                  c_quantity := item_quantity item,
                  c_warehouse_id := Some (warehouse_id wh), c_order_id := Some order_id\<rparr>\<rparr>
        else wh)"

definition handle_supply_confirmation :: "warehouse \<Rightarrow> envelope \<Rightarrow> warehouse" where
  "handle_supply_confirmation wh message =
     (let c = content message
      in case c_order_id c of
           None \<Rightarrow> wh
         | Some order_id \<Rightarrow>
             (case dict_get (pending_orders wh) order_id of
                None \<Rightarrow> wh
              | Some order_data \<Rightarrow>
                  (let wh1 = wh\<lparr>pending_orders :=
                        dict_set (pending_orders wh) order_id
                          (order_data\<lparr>so_status := c_status c\<rparr>)\<rparr>
                   in if c_status c = Some ''DELIVERED''
                      then (let wh2 = notify_available order_id (so_store_id order_data)
                                        (c_items c) wh1
                            in wh2\<lparr>pending_orders := dict_del (pending_orders wh2) order_id\<rparr>)
                      else wh1)))"

subsection \<open>\<^verbatim>\<open>_handle_transfer_status_update\<close>\<close>

text \<open>The failure notice of lines 251-262 and of lines 340-351.\<close>

definition transfer_update_envelope ::
  "string \<Rightarrow> string option \<Rightarrow> string \<Rightarrow> string \<Rightarrow> string \<Rightarrow> envelope" where
  "transfer_update_envelope wid sid transfer_id product_id reason =
     \<lparr>sender = warehouse_agent_id wid, recipient = ''store_agent_'' @ fmt sid,
      message_type = ''TRANSFER_UPDATE'',
      content = no_content\<lparr>c_transfer_id := Some transfer_id, c_product_id := Some product_id,
        c_status := Some ''FAILED'', c_reason := Some reason\<rparr>\<rparr>"

definition handle_transfer_status_update :: "warehouse \<Rightarrow> envelope \<Rightarrow> warehouse" where
  "handle_transfer_status_update wh message =
     (let c = content message
      in case c_transfer_id c of
           None \<Rightarrow> wh
         | Some transfer_id \<Rightarrow>
             (case dict_get (pending_transfers wh) transfer_id of
                None \<Rightarrow> wh
              | Some transfer_data \<Rightarrow>
                  (let wh1 = wh\<lparr>pending_transfers :=
                        dict_set (pending_transfers wh) transfer_id
                          (transfer_data\<lparr>t_status := c_status c\<rparr>)\<rparr>
                   in if c_status c = Some ''COMPLETED'' \<or> c_status c = Some ''FAILED''
                      then (let wh2 =
                                  (if c_status c = Some ''FAILED''
                                   then wh_send_message wh1
                                          (transfer_update_envelope (warehouse_id wh)
                                             (t_store_id transfer_data) transfer_id
                                             (t_product_id transfer_data)
                                             (case c_reason c of
                                                None \<Rightarrow> ''Unknown reason'' | Some r \<Rightarrow> r))
                                   else wh1)
                            in wh2\<lparr>pending_transfers := dict_del (pending_transfers wh2) transfer_id,
                                   transfer_priorities :=
                                     dict_del (transfer_priorities wh2) transfer_id\<rparr>)
                      else wh1)))"

subsection \<open>\<^verbatim>\<open>_process_pending_transfers\<close>\<close>

text \<open>
  \<^verbatim>\<open>sorted(self.transfer_priorities.items(), key=lambda x: x[1], reverse=True)\<close>:
  Python's sort is stable, also with \<^verbatim>\<open>reverse=True\<close>, so entries of equal score keep
  the dictionary's order; that is a stable ascending sort on the negated score.
\<close>

definition sorted_transfers :: "(string \<times> real) list \<Rightarrow> (string \<times> real) list" where
  "sorted_transfers priorities = sort_key (\<lambda>x. - snd x) priorities"

definition set_transfer :: "string \<Rightarrow> transfer \<Rightarrow> warehouse \<Rightarrow> warehouse" where
  "set_transfer transfer_id t wh =
     wh\<lparr>pending_transfers := dict_set (pending_transfers wh) transfer_id t\<rparr>"

text \<open>
  One pass of the loop body, lines 313-392, for one transfer id; the exception, if one
  escapes, comes with the state it leaves.
\<close>

definition transfer_step :: "warehouse \<Rightarrow> string \<Rightarrow> warehouse \<times> py_error option" where
  "transfer_step wh transfer_id =
     (case dict_get (pending_transfers wh) transfer_id of
        None \<Rightarrow> (wh, None)
      | Some transfer_data \<Rightarrow>
          if t_status transfer_data \<noteq> Some ''PENDING'' then (wh, None)
          else (let product_id = t_product_id transfer_data;
                    sid = t_store_id transfer_data;
                    quantity = t_available_quantity transfer_data;
                    failed = wh_send_message
                      (set_transfer transfer_id
                         (transfer_data\<lparr>t_status := Some ''FAILED'',
                                         t_reason := Some ''Insufficient inventory''\<rparr>) wh)
                      (transfer_update_envelope (warehouse_id wh) sid transfer_id product_id
                         ''Insufficient inventory'')
                in case inventory (work (wh_db wh)) product_id of
                     None \<Rightarrow> (failed, None)
                   | Some stock \<Rightarrow>
                       if stock < quantity then (failed, None)
                       else (let wh1 = wh\<lparr>wh_db := set_quantity product_id (stock - quantity)
                                                       (wh_db wh)\<rparr>
                             in case TransactionType_attr ''TRANSFER'' of
                                  Inl e \<Rightarrow> (wh1, Some e)
                                | Inr ty \<Rightarrow>
                                    (let wh2 = set_transfer transfer_id
                                           (transfer_data\<lparr>t_status := Some ''IN_TRANSIT''\<rparr>)
                                           (wh1\<lparr>wh_db := commit (db_add_transaction
                                                  \<lparr>tx_product_id = product_id,
                                                   tx_quantity_change = - quantity,
                                                   tx_type = ty,
                                                   tx_reason = ''Transfer to store '' @ fmt sid,
                                                   tx_location_id = warehouse_id wh,
                                                   tx_reference_id = transfer_id\<rparr>
                                                  (wh_db wh1))\<rparr>)
                                     in (wh_send_message wh2
                                           \<lparr>sender = warehouse_agent_id (warehouse_id wh),
                                            recipient = ''store_agent_'' @ fmt sid,
                                            message_type = ''TRANSFER_INITIATED'',
                                            content = no_content\<lparr>
                                              c_transfer_id := Some transfer_id,
                                              c_product_id := Some product_id,
                                              c_quantity := Some quantity,
                                              c_warehouse_id := Some (warehouse_id wh)\<rparr>\<rparr>,
                                         None)))))"

fun transfer_loop :: "string list \<Rightarrow> warehouse \<Rightarrow> warehouse \<times> py_error option" where
  "transfer_loop [] wh = (wh, None)"
| "transfer_loop (transfer_id # ids) wh =
     (case transfer_step wh transfer_id of
        (wh', Some e) \<Rightarrow> (wh', Some e)
      | (wh', None) \<Rightarrow> transfer_loop ids wh')"

definition process_pending_transfers :: "warehouse \<Rightarrow> warehouse \<times> py_error option" where
  "process_pending_transfers wh =
     (if pending_transfers wh = [] then (wh, None)
      else transfer_loop (map fst (sorted_transfers (transfer_priorities wh))) wh)"

subsection \<open>\<^verbatim>\<open>process_message\<close>\<close>

definition warehouse_process_message ::
  "float_ops \<Rightarrow> warehouse \<Rightarrow> envelope \<Rightarrow> warehouse \<times> (py_error + envelope option)" where
  "warehouse_process_message fl wh message =
     (if message_type message = ''INVENTORY_REQUEST''
      then (case handle_inventory_request fl wh message of
              (wh', Inl e) \<Rightarrow> (wh', Inl e)
            | (wh', Inr r) \<Rightarrow> (wh', Inr (Some r)))
      else if message_type message = ''SUPPLY_CONFIRMATION''
      then (handle_supply_confirmation wh message, Inr None)
      else if message_type message = ''TRANSFER_STATUS_UPDATE''
      then (handle_transfer_status_update wh message, Inr None)
      else (wh, Inr None))"

section \<open>Inventory optimizer (app/services/optimization/inventory.py)\<close>

text \<open>
  Python's floats are read as real numbers throughout this section: the model computes
  without rounding, so a value of the model can differ from the code's by the rounding
  of the float operations (and, after \<^verbatim>\<open>math.ceil\<close>, by one). The statements proved
  about this section do not depend on such a difference: they concern which branch a
  run takes and on which side of one half a value lies.
\<close>

record optimizer =
  holding_cost_pct :: real
  ordering_cost :: real

definition default_optimizer :: optimizer where
  "default_optimizer = \<lparr>holding_cost_pct = 1 / 4, ordering_cost = 20\<rparr>"

text \<open>\<^verbatim>\<open>math.sqrt\<close> raises for a negative argument.\<close>

definition math_sqrt :: "real \<Rightarrow> py_error + real" where
  "math_sqrt x = (if x < 0 then Inl (ValueError ''math domain error'') else Inr (sqrt x))"

definition calculate_eoq :: "optimizer \<Rightarrow> real \<Rightarrow> real \<Rightarrow> py_error + int" where
  "calculate_eoq opt annual_demand unit_cost =
     (if annual_demand \<le> 0 \<or> unit_cost \<le> 0 then Inr 0
      else (let holding_cost = unit_cost * holding_cost_pct opt
            in if holding_cost = 0 then Inl ZeroDivisionError
               else (case math_sqrt ((2 * annual_demand * ordering_cost opt) / holding_cost) of
                       Inl e \<Rightarrow> Inl e
                     | Inr eoq \<Rightarrow> Inr \<lceil>eoq\<rceil>)))"

definition z_score_of :: "real \<Rightarrow> real" where
  "z_score_of service_level =
     (if service_level \<ge> 99 / 100 then 2326 / 1000
      else if service_level \<ge> 95 / 100 then 1645 / 1000
      else 1282 / 1000)"

text \<open>
  \<^verbatim>\<open>calculate_safety_stock(avg_daily_demand, lead_time_days, service_level,
  demand_std_dev)\<close>; \<open>None\<close> for \<open>demand_std_dev\<close> is the default \<^verbatim>\<open>None\<close>.
\<close>

definition calculate_safety_stock :: "real \<Rightarrow> real \<Rightarrow> real \<Rightarrow> real option \<Rightarrow> real" where
  "calculate_safety_stock avg_daily_demand lead_time_days service_level demand_std_dev =
     (if avg_daily_demand \<le> 0 \<or> lead_time_days \<le> 0 then 0
      else (let std_dev = (case demand_std_dev of
                             None \<Rightarrow> avg_daily_demand * (3 / 10) | Some d \<Rightarrow> d)
            in z_score_of service_level * std_dev * sqrt lead_time_days))"

text \<open>\<^verbatim>\<open>calculate_reorder_point(avg_daily_demand, lead_time_days, service_level)\<close>.\<close>

definition calculate_reorder_point :: "real \<Rightarrow> real \<Rightarrow> real \<Rightarrow> int" where
  "calculate_reorder_point avg_daily_demand lead_time_days service_level =
     (if avg_daily_demand \<le> 0 \<or> lead_time_days \<le> 0 then 0
      else \<lceil>avg_daily_demand * lead_time_days
             + calculate_safety_stock avg_daily_demand lead_time_days service_level None\<rceil>)"

text \<open>
  A call that passes arguments by keyword raises \<^verbatim>\<open>TypeError\<close> when the callee has no
  parameter of that name. The parameter lists are those of the two \<^verbatim>\<open>def\<close> lines
  (50-51 and 77-78), without \<^verbatim>\<open>self\<close>.
\<close>

definition calculate_reorder_point_params :: "string list" where
  "calculate_reorder_point_params = [''avg_daily_demand'', ''lead_time_days'', ''service_level'']"

definition calculate_safety_stock_params :: "string list" where
  "calculate_safety_stock_params =
     [''avg_daily_demand'', ''lead_time_days'', ''service_level'', ''demand_std_dev'']"

fun unexpected_keyword :: "string list \<Rightarrow> string list \<Rightarrow> py_error option" where
  "unexpected_keyword params [] = None"
| "unexpected_keyword params (k # ks) =
     (if k \<in> set params then unexpected_keyword params ks
      else Some (TypeError (''got an unexpected keyword argument '' @ k)))"

subsection \<open>\<^verbatim>\<open>_calculate_stockout_probability\<close>\<close>

definition calculate_stockout_probability ::
  "real \<Rightarrow> real \<Rightarrow> real \<Rightarrow> real \<Rightarrow> py_error + real" where
  "calculate_stockout_probability current_stock avg_demand demand_std_dev lead_time =
     (if avg_demand \<le> 0 then Inr (if current_stock > 0 then 0 else 1)
      else (let expected_demand = avg_demand * lead_time
            in case math_sqrt lead_time of
                 Inl e \<Rightarrow> Inl e
               | Inr sq \<Rightarrow>
                   if current_stock \<ge> expected_demand + 3 * demand_std_dev * sq then Inr 0
                   else if current_stock \<le> expected_demand - 3 * demand_std_dev * sq
                   then Inr 1
                   else if demand_std_dev * sq = 0 then Inl ZeroDivisionError
                   else (let z_score = (current_stock - expected_demand)
                                         / (demand_std_dev * sq)
                         in if z_score < 0
                            then Inr (1 / 2 + 1 / 2 * (1 - exp (- (7 / 10) * z_score * z_score))
                                               * (if z_score < 0 then - 1 else 1))
                            else Inr (1 / 2 - 1 / 2
                                               * (1 - exp (- (7 / 10) * z_score * z_score))))))"

subsection \<open>\<^verbatim>\<open>optimize_inventory_levels\<close>\<close>

text \<open>
  The arguments: the three dictionaries with the keys the function reads (\<open>None\<close>: key
  absent), and the forecast \<^verbatim>\<open>DataFrame\<close> with its \<^verbatim>\<open>forecast\<close> column and the two
  optional bound columns.
\<close>

record product_data =
  pd_unit_price :: "real option"
  pd_current_stock :: "real option"

record supplier_data =
  sd_lead_time :: "real option"
  sd_reliability_score :: "real option"

record constraints =
  cs_service_level :: "real option"

record forecast_data =
  fd_forecast :: "real list"
  fd_lower_bound :: "real list option"
  fd_upper_bound :: "real list option"

text \<open>
  The pandas aggregations on a column of at least one row. \<open>series_std\<close> is the sample
  standard deviation (pandas divides by \<open>n - 1\<close>); on a single row pandas gives NaN,
  which the real numbers lack: the model's value there is 0.
\<close>

definition series_mean :: "real list \<Rightarrow> real" where
  "series_mean xs = sum_list xs / real (length xs)"

definition series_max :: "real list \<Rightarrow> real" where
  "series_max xs = foldr max (tl xs) (hd xs)"

definition series_std :: "real list \<Rightarrow> real" where
  "series_std xs =
     sqrt (sum_list (map (\<lambda>x. (x - series_mean xs) * (x - series_mean xs)) xs)
             / (real (length xs) - 1))"

text \<open>\<^verbatim>\<open>int(x)\<close> truncates towards zero; \<^verbatim>\<open>round(x, n)\<close> rounds half to even.\<close>

definition py_int :: "real \<Rightarrow> int" where
  "py_int x = (if x \<ge> 0 then \<lfloor>x\<rfloor> else \<lceil>x\<rceil>)"

definition py_round :: "real \<Rightarrow> nat \<Rightarrow> real" where
  "py_round x n =
     (let y = x * 10 ^ n; f = \<lfloor>y\<rfloor>; d = y - of_int f
      in of_int (if d < 1 / 2 then f
                 else if d > 1 / 2 then f + 1
                 else if even f then f else f + 1) / 10 ^ n)"

record optimization =
  economic_order_quantity :: int
  reorder_point :: int
  safety_stock :: int
  max_stock_level :: int
  res_current_stock :: real
  order_recommendation :: int
  days_of_supply :: real
  avg_daily_demand :: real
  stockout_probability :: real
  annual_holding_cost :: real
  order_cycle_days :: real
  res_error :: "py_error option"

text \<open>The dictionary of the \<^verbatim>\<open>except\<close> branch, lines 209-222.\<close>

definition default_values :: "real \<Rightarrow> py_error \<Rightarrow> optimization" where
  "default_values current_stock e =
     \<lparr>economic_order_quantity = 0, reorder_point = 0, safety_stock = 0, max_stock_level = 0,
      res_current_stock = current_stock, order_recommendation = 0, days_of_supply = 0,
      avg_daily_demand = 0, stockout_probability = 100, annual_holding_cost = 0,
      order_cycle_days = 0, res_error = Some e\<rparr>"

text \<open>Lines 135-148: average, maximum and variability of the daily demand.\<close>

definition demand_statistics :: "forecast_data \<Rightarrow> real \<times> real \<times> real" where
  "demand_statistics fd =
     (if length (fd_forecast fd) > 0
      then (series_mean (fd_forecast fd), series_max (fd_forecast fd),
            (case (fd_lower_bound fd, fd_upper_bound fd) of
               (Some lower, Some upper) \<Rightarrow> series_mean (map2 (-) upper lower) / 4
             | _ \<Rightarrow> series_std (fd_forecast fd)))
      else (1, 2, 1 / 2))"

text \<open>The body of the \<^verbatim>\<open>try\<close>, lines 128-204.\<close>

definition optimize_body ::
  "optimizer \<Rightarrow> product_data \<Rightarrow> forecast_data \<Rightarrow> supplier_data \<Rightarrow> constraints
     \<Rightarrow> py_error + optimization" where
  "optimize_body opt pd fd sd cs =
     (let unit_cost = (case pd_unit_price pd of None \<Rightarrow> 0 | Some u \<Rightarrow> u);
          current_stock = (case pd_current_stock pd of None \<Rightarrow> 0 | Some c \<Rightarrow> c);
          lead_time_days = (case sd_lead_time sd of None \<Rightarrow> 7 | Some l \<Rightarrow> l);
          reliability = (case sd_reliability_score sd of None \<Rightarrow> 9 / 10 | Some r \<Rightarrow> r);
          service_level = (case cs_service_level cs of None \<Rightarrow> 95 / 100 | Some l \<Rightarrow> l)
      in case demand_statistics fd of
           (avg_demand, max_daily_demand, demand_variability) \<Rightarrow>
             (case calculate_eoq opt (avg_demand * 365) unit_cost of
                Inl e \<Rightarrow> Inl e
              | Inr eoq \<Rightarrow>
                  if reliability = 0 then Inl ZeroDivisionError
                  else (let adjusted_lead_time = lead_time_days / reliability
                        in case unexpected_keyword calculate_reorder_point_params
                                  [''service_level'', ''demand_std_dev''] of
                             Some e \<Rightarrow> Inl e
                           | None \<Rightarrow>
                               (case unexpected_keyword calculate_safety_stock_params
                                       [''service_level'', ''demand_std_dev''] of
                                  Some e \<Rightarrow> Inl e
                                | None \<Rightarrow>
                                    (let rp = calculate_reorder_point avg_demand
                                                adjusted_lead_time service_level;
                                         ss = calculate_safety_stock avg_demand
                                                adjusted_lead_time service_level
                                                (Some demand_variability);
                                         max_stock = rp + eoq;
                                         recommendation =
                                           (if current_stock \<le> real_of_int rp then eoq else 0)
                                     in case calculate_stockout_probability current_stock
                                               avg_demand demand_variability lead_time_days of
                                          Inl e \<Rightarrow> Inl e
                                        | Inr stockout_prob \<Rightarrow>
                                            Inr \<lparr>economic_order_quantity = eoq,
                                                 reorder_point = rp,
                                                 safety_stock = py_int ss,
                                                 max_stock_level = max_stock,
                                                 res_current_stock =
                                                   real_of_int (py_int current_stock),
                                                 order_recommendation = recommendation,
                                                 days_of_supply =
                                                   py_round (if avg_demand > 0
                                                             then current_stock / avg_demand
                                                             else 0) 1,
                                                 avg_daily_demand = py_round avg_demand 2,
                                                 stockout_probability =
                                                   py_round (stockout_prob * 100) 2,
                                                 annual_holding_cost =
                                                   py_round (real_of_int max_stock * unit_cost
                                                               * holding_cost_pct opt) 2,
                                                 order_cycle_days =
                                                   py_round (if avg_demand > 0
                                                             then real_of_int eoq / avg_demand
                                                             else 0) 1,
                                                 res_error = None\<rparr>)))))"

definition optimize_inventory_levels ::
  "optimizer \<Rightarrow> product_data \<Rightarrow> forecast_data \<Rightarrow> supplier_data \<Rightarrow> constraints
     \<Rightarrow> optimization" where
  "optimize_inventory_levels opt pd fd sd cs =
     (case optimize_body opt pd fd sd cs of
        Inl e \<Rightarrow>
          default_values (case pd_current_stock pd of None \<Rightarrow> 0 | Some c \<Rightarrow> c) e
      | Inr results \<Rightarrow> results)"

section \<open>Initial states and the states of the examples\<close>

definition empty_db :: db where
  "empty_db = \<lparr>inventory = Map.empty, transactions = [], products = Map.empty,
                orders = Map.empty, order_items = []\<rparr>"

definition clean_session :: "db \<Rightarrow> session" where
  "clean_session d = \<lparr>work = d, saved = d\<rparr>"

text \<open>\<^verbatim>\<open>StoreAgent.__init__\<close> and \<^verbatim>\<open>WarehouseAgent.__init__\<close>.\<close>

definition init_store :: "string \<Rightarrow> session \<Rightarrow> store" where
  "init_store sid s = \<lparr>store_id = sid, st_db = s, pending_transactions = [],
     pending_replenishments = [], st_outbox = [], st_uuids = 0\<rparr>"

definition init_warehouse :: "string \<Rightarrow> session \<Rightarrow> warehouse" where
  "init_warehouse wid s = \<lparr>warehouse_id = wid, wh_db = s, pending_transfers = [],
     pending_orders = [], transfer_priorities = [], wh_outbox = [], wh_uuids = 0\<rparr>"

text \<open>A store holding 2 units of P1 and 4 units of P2.\<close>

definition two_product_store :: store where
  "two_product_store =
     init_store ''S1''
       (clean_session (empty_db\<lparr>inventory := [''P1'' \<mapsto> 2, ''P2'' \<mapsto> 4]\<rparr>))"

definition update_message :: "string \<Rightarrow> int \<Rightarrow> string \<Rightarrow> envelope" where
  "update_message product_id quantity update_type =
     \<lparr>sender = ''warehouse_agent_main'', recipient = ''store_agent_S1'',
      message_type = ''INVENTORY_UPDATE'',
      content = no_content\<lparr>c_product_id := Some product_id, c_quantity := Some quantity,
        c_update_type := Some update_type\<rparr>\<rparr>"

definition sale_request :: "string \<Rightarrow> (string \<times> int) list \<Rightarrow> envelope" where
  "sale_request transaction_id items =
     \<lparr>sender = ''pos'', recipient = ''store_agent_S1'', message_type = ''SALE_REQUEST'',
      content = no_content\<lparr>c_transaction_id := Some transaction_id,
        c_items := map (\<lambda>(p, q). \<lparr>item_product_id = Some p, item_quantity = Some q\<rparr>) items\<rparr>\<rparr>"

text \<open>A store whose order O1, of two units of P1, has been delivered.\<close>

definition delivered_order_store :: store where
  "delivered_order_store =
     init_store ''S1''
       (clean_session (empty_db\<lparr>inventory := [''P1'' \<mapsto> 3],
          orders := [''O1'' \<mapsto> DELIVERED],
          order_items := [\<lparr>oi_order_id = ''O1'', oi_product_id = ''P1'', oi_quantity = 2\<rparr>]\<rparr>))"

definition order_update :: "string \<Rightarrow> string \<Rightarrow> envelope" where
  "order_update order_id status =
     \<lparr>sender = ''pos'', recipient = ''store_agent_S1'', message_type = ''ORDER_UPDATE'',
      content = no_content\<lparr>c_order_id := Some order_id, c_status := Some status\<rparr>\<rparr>"

text \<open>
  A store with one pending replenishment request R1 of priority HIGH whose
  \<^verbatim>\<open>reference_id\<close> is the transfer T1, and the failure notice of T1.
\<close>

definition waiting_store :: store where
  "waiting_store =
     (init_store ''S1'' (clean_session empty_db))
       \<lparr>pending_replenishments :=
          [(''R1'', \<lparr>r_product_id = ''P1'', r_quantity = 10, r_priority = ''HIGH'',
                    r_status = ''pending'', r_retry_count = Some 0,
                    r_reference_id = Some ''T1'', r_failure_reason = None\<rparr>)]\<rparr>"

definition transfer_failed :: "string \<Rightarrow> string \<Rightarrow> envelope" where
  "transfer_failed transfer_id product_id =
     \<lparr>sender = ''warehouse_agent_main'', recipient = ''store_agent_S1'',
      message_type = ''TRANSFER_FAILED'',
      content = no_content\<lparr>c_transfer_id := Some transfer_id,
        c_product_id := Some product_id\<rparr>\<rparr>"

definition fail_times :: "nat \<Rightarrow> store \<Rightarrow> store" where
  "fail_times n st =
     ((\<lambda>s. fst (store_process_message s (transfer_failed ''T1'' ''P1''))) ^^ n) st"

text \<open>
  A warehouse holding 5 units of P1 (unit price 50) and 10 units of P2 (unit price 150),
  and the states it reaches by handling \<^verbatim>\<open>INVENTORY_REQUEST\<close> messages.
\<close>

definition stocked_warehouse :: warehouse where
  "stocked_warehouse =
     init_warehouse ''main''
       (clean_session (empty_db\<lparr>inventory := [''P1'' \<mapsto> 5, ''P2'' \<mapsto> 10],
          products :=
            [''P1'' \<mapsto> \<lparr>unit_price = 50, minimum_stock = 0, maximum_stock = 100\<rparr>,
             ''P2'' \<mapsto> \<lparr>unit_price = 150, minimum_stock = 0, maximum_stock = 100\<rparr>]\<rparr>))"

definition inventory_request :: "string \<Rightarrow> string \<Rightarrow> int \<Rightarrow> string \<Rightarrow> envelope" where
  "inventory_request sid product_id quantity priority =
     \<lparr>sender = store_agent_id sid, recipient = ''warehouse_agent_main'',
      message_type = ''INVENTORY_REQUEST'',
      content = no_content\<lparr>c_product_id := Some product_id, c_quantity := Some quantity,
        c_store_id := Some sid, c_priority := Some priority\<rparr>\<rparr>"

text \<open>
  Arithmetic without rounding. The examples use quotients, sums and products that binary
  floating point computes exactly (2 / 2, 50 / 100 + 0.5, 150 / 100 + 0.5, 100 * 1 * 1,
  10 * 1 * 2 and the like).
\<close>

definition exact_arithmetic :: float_ops where
  "exact_arithmetic =
     \<lparr>f_truediv = (\<lambda>a b. real_of_int a / real_of_int b), f_div = (/), f_add = (+),
      f_mul = (*)\<rparr>"

definition after_requests :: "envelope list \<Rightarrow> warehouse" where
  "after_requests ms =
     foldl (\<lambda>wh m. fst (warehouse_process_message exact_arithmetic wh m))
       stocked_warehouse ms"

text \<open>Two approved transfers of P1, of 5 and 4 units, against a stock of 5.\<close>

definition competing_transfers :: warehouse where
  "competing_transfers = after_requests
     [inventory_request ''S1'' ''P1'' 5 ''HIGH'', inventory_request ''S2'' ''P1'' 4 ''LOW'']"


section \<open>Notions of the specification\<close>

text \<open>What the store has of a product: the quantity of its row, 0 without a row.\<close>

definition available :: "(string \<rightharpoonup> int) \<Rightarrow> string \<Rightarrow> int" where
  "available stock product_id = (case stock product_id of None \<Rightarrow> 0 | Some q \<Rightarrow> q)"

text \<open>
  An insufficient item of a sale: it names a product and asks for a positive quantity
  that exceeds what the store has. Its shortfall is the product with the requested and
  the available quantity.
\<close>

definition insufficient :: "(string \<rightharpoonup> int) \<Rightarrow> sale_item \<Rightarrow> bool" where
  "insufficient stock item =
     (case item_product_id item of
        None \<Rightarrow> False
      | Some p \<Rightarrow>
          (case item_quantity item of
             None \<Rightarrow> False
           | Some q \<Rightarrow> p \<noteq> [] \<and> 0 < q \<and> available stock p < q))"

definition shortfall_of :: "(string \<rightharpoonup> int) \<Rightarrow> sale_item \<Rightarrow> shortfall" where
  "shortfall_of stock item =
     (let p = (case item_product_id item of None \<Rightarrow> [] | Some p \<Rightarrow> p)
      in \<lparr>sf_product_id = p,
          sf_requested = (case item_quantity item of None \<Rightarrow> 0 | Some q \<Rightarrow> q),
          sf_available = available stock p\<rparr>)"

definition shortfalls :: "(string \<rightharpoonup> int) \<Rightarrow> sale_item list \<Rightarrow> shortfall list" where
  "shortfalls stock items = map (shortfall_of stock) (filter (insufficient stock) items)"

text \<open>The stock invariant: no row holds a negative quantity.\<close>

definition non_negative :: "(string \<rightharpoonup> int) \<Rightarrow> bool" where
  "non_negative stock = (\<forall>p q. stock p = Some q \<longrightarrow> 0 \<le> q)"














section \<open>Auxiliary facts\<close>

lemmas session_defs = commit_def rollback_def db_add_transaction_def set_quantity_def
  clean_session_def empty_db_def

lemmas store_defs = init_store_def two_product_store_def update_message_def sale_request_def
  no_content_def store_process_message_def handle_inventory_update_def apply_update_def
  reference_of_def mark_fulfilled_def handle_sale_request_def process_sale_def
  check_reorder_needed_def pending_quantity_def request_replenishment_def send_message_def
  replenishment_envelope_def List.map_filter_def Let_def

lemmas warehouse_defs = stocked_warehouse_def init_warehouse_def inventory_request_def
  after_requests_def warehouse_process_message_def handle_inventory_request_def
  enqueue_transfer_def calculate_priority_score_def priority_values_def exact_arithmetic_def
  inventory_response_def no_content_def store_agent_id_def warehouse_agent_id_def
  process_pending_transfers_def sorted_transfers_def transfer_step_def set_transfer_def
  wh_send_message_def transfer_update_envelope_def Let_def



section \<open>The stock invariant\<close>

text \<open>
  Sales, transfers, \<^verbatim>\<open>REMOVE\<close> updates and \<^verbatim>\<open>ADD\<close> updates of a non-negative amount
  keep the invariant, in the session and in the database.
\<close>

lemma non_negative_upd: "non_negative stock \<Longrightarrow> 0 \<le> q \<Longrightarrow> non_negative (stock(p \<mapsto> q))"
  by (simp add: non_negative_def)

lemma sale_loop_non_negative:
  "sale_loop sid tid items s = Inr s' \<Longrightarrow> non_negative (inventory (work s))
     \<Longrightarrow> non_negative (inventory (work s'))"
proof (induction items arbitrary: s)
  case Nil
  then show ?case by simp
next
  case (Cons item items)
  from Cons.prems(1) obtain p n q where
    item: "item_product_id item = Some p" "item_quantity item = Some n"
      "inventory (work s) p = Some q" "\<not> q < n"
    and rest: "sale_loop sid tid items
        (db_add_transaction
           \<lparr>tx_product_id = p, tx_quantity_change = - n, tx_type = SALE,
            tx_reason = ''Sale '' @ tid, tx_location_id = sid, tx_reference_id = tid\<rparr>
           (set_quantity p (q - n) s)) = Inr s'"
    by (auto split: option.splits if_splits)
  have "non_negative (inventory (work (db_add_transaction
           \<lparr>tx_product_id = p, tx_quantity_change = - n, tx_type = SALE,
            tx_reason = ''Sale '' @ tid, tx_location_id = sid, tx_reference_id = tid\<rparr>
           (set_quantity p (q - n) s))))"
    using Cons.prems(2) item(4)
    by (simp add: db_add_transaction_def set_quantity_def non_negative_upd)
  from Cons.IH [OF rest this] show ?case .
qed

lemma check_reorder_needed_db: "st_db (check_reorder_needed st p) = st_db st"
  by (simp add: check_reorder_needed_def request_replenishment_def send_message_def Let_def
      split: option.splits)

lemma foldl_check_reorder_needed_db: "st_db (foldl check_reorder_needed st ps) = st_db st"
  by (induction ps arbitrary: st) (simp_all add: check_reorder_needed_db)

lemma process_sale_non_negative:
  assumes "non_negative (inventory (work (st_db st)))"
      and "non_negative (inventory (saved (st_db st)))"
  shows "non_negative (inventory (work (st_db (fst (process_sale st tid)))))
         \<and> non_negative (inventory (saved (st_db (fst (process_sale st tid)))))"
  using assms sale_loop_non_negative
  by (auto simp: process_sale_def foldl_check_reorder_needed_db commit_def rollback_def
      split: option.splits sum.splits sale_abort.splits)

lemma handle_sale_request_non_negative:
  assumes "non_negative (inventory (work (st_db st)))"
      and "non_negative (inventory (saved (st_db st)))"
  shows "non_negative (inventory (work (st_db (fst (handle_sale_request st m)))))
         \<and> non_negative (inventory (saved (st_db (fst (handle_sale_request st m)))))"
  using assms process_sale_non_negative
  by (auto simp: handle_sale_request_def Let_def split: option.splits prod.splits)

lemma apply_update_non_negative:
  assumes "apply_update update_type p n s = Some s'"
      and "non_negative (inventory (work s))"
      and "update_type = ''ADD'' \<Longrightarrow> 0 \<le> n"
  shows "non_negative (inventory (work s'))"
  using assms
  by (auto simp: apply_update_def set_quantity_def non_negative_def
      split: option.splits if_splits)

lemma transfer_step_non_negative:
  assumes "non_negative (inventory (work (wh_db wh)))"
      and "non_negative (inventory (saved (wh_db wh)))"
  shows "non_negative (inventory (work (wh_db (fst (transfer_step wh tid)))))
         \<and> non_negative (inventory (saved (wh_db (fst (transfer_step wh tid)))))"
  using assms
  by (auto simp: transfer_step_def Let_def set_transfer_def wh_send_message_def
      set_quantity_def db_add_transaction_def commit_def non_negative_def
      split: option.splits)

text \<open>
  C1. The claim is that no operation on an inventory record leaves a negative quantity.
  The handler of \<^verbatim>\<open>INVENTORY_UPDATE\<close> rejects only a missing or zero quantity (line 175):
  an \<^verbatim>\<open>ADD\<close> of \<open>- 5\<close> to the 2 units of P1 sets the row to \<open>- 3\<close> in the session, and
  the commit of the next sale, of one unit of P2, writes that quantity to the database.
\<close>

theorem add_of_negative_amount_leaves_negative_stock:
  "inventory (work (st_db (fst (store_process_message two_product_store
       (update_message ''P1'' (- 5) ''ADD''))))) ''P1'' = Some (- 3)
   \<and> inventory (saved (st_db (fst (store_process_message
       (fst (store_process_message two_product_store (update_message ''P1'' (- 5) ''ADD'')))
       (sale_request ''T1'' [(''P2'', 1)]))))) ''P1'' = Some (- 3)"
  by (simp add: store_defs session_defs)

section \<open>Order updates\<close>

text \<open>
  The test of line 280 never holds: the status \<^verbatim>\<open>CANCELLED\<close> is not the name of a
  member of \<^verbatim>\<open>OrderStatus\<close>, so the lookup of line 276 raises before it, and for every
  other status the first conjunct fails. An order update either fails or commits the new
  status, and returns no item.
\<close>

lemma order_update_body_eq:
  "order_update_body sid order_id status s =
     (case OrderStatus_getitem status of
        Inl e \<Rightarrow> Inl e
      | Inr new_status \<Rightarrow> Inr (commit (set_order_status order_id new_status s)))"
  by (auto simp: order_update_body_def Let_def split: sum.splits)

text \<open>
  C2. For an order whose status is \<^verbatim>\<open>DELIVERED\<close>, an \<^verbatim>\<open>ORDER_UPDATE\<close> with status
  \<^verbatim>\<open>CANCELLED\<close> is answered with an error and the session is rolled back: inventory and
  ledger are those of the last commit, so no quantity is added back and no
  \<^verbatim>\<open>RETURN\<close> transaction is written.
\<close>

theorem delivered_order_cancel_returns_nothing:
  assumes "orders (work (st_db st)) order_id = Some DELIVERED"
      and "order_id \<noteq> []"
      and "c_order_id (content message) = Some order_id"
      and "c_status (content message) = Some ''CANCELLED''"
  shows "handle_order_update st message
           = (st\<lparr>st_db := rollback (st_db st)\<rparr>, Error ''Error updating order'')
         \<and> inventory (work (st_db (fst (handle_order_update st message))))
             = inventory (saved (st_db st))
         \<and> transactions (work (st_db (fst (handle_order_update st message))))
             = transactions (saved (st_db st))
         \<and> saved (st_db (fst (handle_order_update st message))) = saved (st_db st)"
  using assms by (simp add: handle_order_update_def order_update_body_def rollback_def)

theorem delivered_order_cancel_returns_nothing_witness:
  "handle_order_update delivered_order_store (order_update ''O1'' ''CANCELLED'')
     = (delivered_order_store, Error ''Error updating order'')
   \<and> inventory (work (st_db (fst (handle_order_update delivered_order_store
         (order_update ''O1'' ''CANCELLED''))))) ''P1'' = Some 3
   \<and> transactions (work (st_db (fst (handle_order_update delivered_order_store
         (order_update ''O1'' ''CANCELLED''))))) = []"
proof -
  have status: "orders (work (st_db delivered_order_store)) ''O1'' = Some DELIVERED"
    by (simp add: delivered_order_store_def init_store_def session_defs)
  have rolled: "delivered_order_store\<lparr>st_db := rollback (st_db delivered_order_store)\<rparr>
                = delivered_order_store"
    by (simp add: delivered_order_store_def init_store_def session_defs)
  from delivered_order_cancel_returns_nothing
         [of delivered_order_store "''O1''" "order_update ''O1'' ''CANCELLED''", OF status]
  have "handle_order_update delivered_order_store (order_update ''O1'' ''CANCELLED'')
          = (delivered_order_store, Error ''Error updating order'')"
    by (simp add: rolled order_update_def no_content_def)
  then show ?thesis
    by (simp add: delivered_order_store_def init_store_def session_defs)
qed

section \<open>Sale requests\<close>

lemma scan_items_shortfalls:
  "fst (scan_items stock items ins val) = ins @ shortfalls stock items"
  by (induction items arbitrary: ins val)
     (auto simp: shortfalls_def insufficient_def shortfall_of_def available_def Let_def
           split: option.splits)

text \<open>
  C3. A \<^verbatim>\<open>SALE_REQUEST\<close> carries a transaction id. When one of its items names a product
  and asks for a positive quantity that exceeds what the store has, the handler returns
  the store unchanged (no debit, no \<^verbatim>\<open>SALE\<close> row, no pending transaction) with the
  response \<^verbatim>\<open>insufficient_inventory\<close>, which lists the shortfall of every insufficient
  item of the request, that of the item among them.
\<close>

theorem insufficient_sale_rejected_atomically:
  assumes "c_transaction_id (content message) = Some transaction_id"
      and "transaction_id \<noteq> []"
      and "item \<in> set (c_items (content message))"
      and "item_product_id item = Some p" and "p \<noteq> []"
      and "item_quantity item = Some q" and "0 < q"
      and "available (inventory (work (st_db st))) p < q"
  shows "handle_sale_request st message
           = (st, Insufficient_inventory
                    (shortfalls (inventory (work (st_db st))) (c_items (content message))))
         \<and> \<lparr>sf_product_id = p, sf_requested = q,
             sf_available = available (inventory (work (st_db st))) p\<rparr>
             \<in> set (shortfalls (inventory (work (st_db st))) (c_items (content message)))"
proof -
  let ?stock = "inventory (work (st_db st))" and ?items = "c_items (content message)"
  have ins: "insufficient ?stock item"
    using assms by (simp add: insufficient_def)
  have sf: "shortfall_of ?stock item
            = \<lparr>sf_product_id = p, sf_requested = q, sf_available = available ?stock p\<rparr>"
    using assms by (simp add: shortfall_of_def)
  have mem: "shortfall_of ?stock item \<in> set (shortfalls ?stock ?items)"
    using assms(3) ins by (simp add: shortfalls_def)
  then have ne: "shortfalls ?stock ?items \<noteq> []" by auto
  have items: "?items \<noteq> []" using assms(3) by auto
  obtain a b where sc: "scan_items ?stock ?items [] [] = (a, b)"
    by (cases "scan_items ?stock ?items [] []")
  with scan_items_shortfalls [of ?stock ?items "[]" "[]"]
  have a: "a = shortfalls ?stock ?items" by simp
  have "handle_sale_request st message = (st, Insufficient_inventory (shortfalls ?stock ?items))"
    using assms(1,2) items sc a ne by (simp add: handle_sale_request_def Let_def)
  with mem sf show ?thesis by simp
qed

text \<open>The sale of section 8 of the specification: 3 of P1, of which the store has 2, and 1 of P2.\<close>

theorem insufficient_sale_rejected_atomically_witness:
  "handle_sale_request two_product_store (sale_request ''T1'' [(''P1'', 3), (''P2'', 1)])
     = (two_product_store,
        Insufficient_inventory [\<lparr>sf_product_id = ''P1'', sf_requested = 3, sf_available = 2\<rparr>])"
proof -
  let ?m = "sale_request ''T1'' [(''P1'', 3), (''P2'', 1)]"
  let ?item = "\<lparr>item_product_id = Some ''P1'', item_quantity = Some 3\<rparr>"
  have stock: "available (inventory (work (st_db two_product_store))) ''P1'' = 2"
    by (simp add: available_def two_product_store_def init_store_def session_defs)
  have short: "shortfalls (inventory (work (st_db two_product_store))) (c_items (content ?m))
               = [\<lparr>sf_product_id = ''P1'', sf_requested = 3, sf_available = 2\<rparr>]"
    by (simp add: shortfalls_def insufficient_def shortfall_of_def available_def
        two_product_store_def init_store_def session_defs sale_request_def no_content_def)
  from insufficient_sale_rejected_atomically
         [of ?m "''T1''" ?item "''P1''" 3 two_product_store]
  show ?thesis
    by (simp add: stock short) (simp add: sale_request_def no_content_def)
qed


section \<open>Inventory updates for a product without a row\<close>

text \<open>
  C10. The claim is that an \<^verbatim>\<open>ADD\<close> for a product without a row creates the row and
  records a \<^verbatim>\<open>DELIVERY\<close> transaction. \<^verbatim>\<open>TransactionType\<close> has no member
  \<^verbatim>\<open>DELIVERY\<close>: for 5 units of P3 the handler adds the row to the session, then line 214
  raises \<^verbatim>\<open>AttributeError\<close>; no transaction is recorded and nothing is committed. The
  \<^verbatim>\<open>REMOVE\<close> half of the claim holds: an error, and the store is unchanged.
\<close>

theorem add_for_missing_row_raises:
  "handle_inventory_update two_product_store (update_message ''P3'' 5 ''ADD'')
     = (two_product_store\<lparr>st_db := set_quantity ''P3'' 5 (st_db two_product_store)\<rparr>,
        Inl (AttributeError ''DELIVERY''))
   \<and> transactions (work (st_db (fst (handle_inventory_update two_product_store
         (update_message ''P3'' 5 ''ADD''))))) = []
   \<and> inventory (saved (st_db (fst (handle_inventory_update two_product_store
         (update_message ''P3'' 5 ''ADD''))))) ''P3'' = None
   \<and> handle_inventory_update two_product_store (update_message ''P3'' 5 ''REMOVE'')
       = (two_product_store,
          Inr (Error ''Cannot remove inventory for non-existent product: P3''))"
  by (simp add: store_defs session_defs)

section \<open>Failed transfers and retries\<close>

text \<open>
  C4. The claim is that the retries of a request are issued with priorities stepping
  down from HIGH to MEDIUM to LOW, and that a retry overwrites the stored request. The
  retry computes its priority from the stored one (line 351), and
  \<^verbatim>\<open>_request_replenishment\<close> leaves a stored request as it is (line 531): after four
  failure notices for the request R1 of priority HIGH the store has sent three retries,
  each of priority MEDIUM, and R1 is still stored once, with priority HIGH, status
  \<^verbatim>\<open>failed\<close> and a retry count of 3.
\<close>

theorem retries_keep_priority_medium:
  "map (\<lambda>m. (message_type m, c_request_id (content m), c_priority (content m)))
       (st_outbox (fail_times 4 waiting_store))
     = [(''REPLENISHMENT_REQUEST'', Some ''R1'', Some ''MEDIUM''),
        (''REPLENISHMENT_REQUEST'', Some ''R1'', Some ''MEDIUM''),
        (''REPLENISHMENT_REQUEST'', Some ''R1'', Some ''MEDIUM'')]
   \<and> map (\<lambda>(k, r). (k, r_priority r, r_status r, r_retry_count r))
         (pending_replenishments (fail_times 4 waiting_store))
       = [(''R1'', ''HIGH'', ''failed'', Some 3)]"
  by (simp add: fail_times_def waiting_store_def transfer_failed_def
      handle_transfer_failed_def retry_allowed_def store_defs session_defs eval_nat_numeral)

section \<open>Messages between store and warehouse\<close>

text \<open>
  C5. The claim is that the warehouse answers a \<^verbatim>\<open>REPLENISHMENT_REQUEST\<close> of the store
  with a transfer or a supply request. Its \<^verbatim>\<open>process_message\<close> knows no such message
  type: for the envelope that \<^verbatim>\<open>_request_replenishment\<close> sends, it returns no response
  and leaves the warehouse as it was (no transfer, no score, no envelope sent).
\<close>

theorem replenishment_request_dropped_by_warehouse:
  "warehouse_process_message fl wh
     (last (st_outbox (fst (request_replenishment st product_id quantity priority original))))
     = (wh, Inr None)"
  by (simp add: warehouse_process_message_def request_replenishment_def send_message_def
      replenishment_envelope_def Let_def)

text \<open>
  C6. The claim is that the store handles the warehouse's failure notice as
  \<^verbatim>\<open>TRANSFER_FAILED\<close>. The warehouse sends it with the message type
  \<^verbatim>\<open>TRANSFER_UPDATE\<close>: of two approved transfers of P1 the cycle executes the first and
  fails the second, whose notice is the envelope sent last; the store's
  \<^verbatim>\<open>process_message\<close> returns no response for such an envelope and leaves every pending
  request as it was.
\<close>

theorem transfer_failure_notice_dropped_by_store:
  "map message_type (wh_outbox (fst (process_pending_transfers competing_transfers)))
     = [''TRANSFER_INITIATED'', ''TRANSFER_UPDATE'']
   \<and> last (wh_outbox (fst (process_pending_transfers competing_transfers)))
       = transfer_update_envelope ''main'' (Some ''S2'') (uuid4 1) ''P1''
           ''Insufficient inventory''
   \<and> store_process_message st
         (transfer_update_envelope wid sid transfer_id product_id reason)
       = (st, Inr None)"
  by (simp add: competing_transfers_def warehouse_defs session_defs
      store_process_message_def)

section \<open>The optimizer\<close>

text \<open>
  C7. The claim is that \<^verbatim>\<open>optimize_inventory_levels\<close> returns the composed results.
  The call of line 160 passes \<^verbatim>\<open>demand_std_dev\<close> by keyword to
  \<^verbatim>\<open>calculate_reorder_point\<close>, which has no such parameter, so every run that reaches
  the call raises \<^verbatim>\<open>TypeError\<close>, and every run ends in the \<^verbatim>\<open>except\<close> branch: whatever
  the arguments, the result is the defaulted dictionary.
\<close>

theorem optimize_inventory_levels_always_defaults:
  "economic_order_quantity (optimize_inventory_levels opt pd fd sd cs) = 0
   \<and> reorder_point (optimize_inventory_levels opt pd fd sd cs) = 0
   \<and> safety_stock (optimize_inventory_levels opt pd fd sd cs) = 0
   \<and> stockout_probability (optimize_inventory_levels opt pd fd sd cs) = 100
   \<and> res_error (optimize_inventory_levels opt pd fd sd cs) \<noteq> None
   \<and> optimize_inventory_levels default_optimizer
         \<lparr>pd_unit_price = Some 10, pd_current_stock = Some 50\<rparr>
         \<lparr>fd_forecast = [10, 12, 14], fd_lower_bound = None, fd_upper_bound = None\<rparr>
         \<lparr>sd_lead_time = Some 7, sd_reliability_score = Some (9 / 10)\<rparr>
         \<lparr>cs_service_level = None\<rparr>
       = default_values 50
           (TypeError ''got an unexpected keyword argument demand_std_dev'')"
  by (auto simp: optimize_inventory_levels_def optimize_body_def default_values_def
      calculate_reorder_point_params_def default_optimizer_def calculate_eoq_def
      math_sqrt_def demand_statistics_def series_mean_def Let_def
      split: sum.splits prod.splits)

text \<open>
  C8. The claim is that for a negative z inside the three-sigma band the function
  returns \<open>0.5 + 0.5 (1 - exp (- 0.7 z z))\<close>, a probability above one half. The branch for
  \<open>z < 0\<close> multiplies the second summand by \<open>- 1\<close> (line 251), so it returns the same
  value as the branch for \<open>z \<ge> 0\<close>: with a stock of 5, a daily demand of 10 with
  deviation 5 and a lead time of 1, z is \<open>- 1\<close> and the result is below one half.
\<close>

theorem stockout_probability_below_half_for_negative_z:
  "calculate_stockout_probability 5 10 5 1 = Inr (1 / 2 - 1 / 2 * (1 - exp (- (7 / 10))))
   \<and> 1 / 2 - 1 / 2 * (1 - exp (- (7 / 10))) < (1 / 2 :: real)
   \<and> calculate_stockout_probability 5 10 5 1 = calculate_stockout_probability 15 10 5 1"
  by (simp add: calculate_stockout_probability_def math_sqrt_def Let_def)


section \<open>Transfer priorities\<close>

subsection \<open>Dictionaries\<close>


lemma dict_get_Some_mem: "dict_get d k = Some v \<Longrightarrow> (k, v) \<in> set d"
  by (induction d) (auto split: if_splits)









subsection \<open>One pass of the loop body\<close>

lemma transfer_step_returns: "snd (transfer_step wh tid) = None"
  by (auto simp: transfer_step_def Let_def split: option.splits)


lemma transfer_step_frame:
  "warehouse_id (fst (transfer_step wh tid)) = warehouse_id wh"
  "transfer_priorities (fst (transfer_step wh tid)) = transfer_priorities wh"
  "wh_uuids (fst (transfer_step wh tid)) = wh_uuids wh"
  "products (work (wh_db (fst (transfer_step wh tid)))) = products (work (wh_db wh))"
  by (auto simp: transfer_step_def Let_def set_transfer_def wh_send_message_def
      set_quantity_def db_add_transaction_def commit_def split: option.splits)



subsection \<open>The loop\<close>


lemma transfer_loop_Cons:
  "transfer_loop (tid # ids) wh = transfer_loop ids (fst (transfer_step wh tid))"
proof -
  obtain wh1 where "transfer_step wh tid = (wh1, None)"
    using transfer_step_returns [of wh tid] by (cases "transfer_step wh tid") auto
  then show ?thesis by simp
qed

lemma transfer_loop_frame:
  "warehouse_id (fst (transfer_loop ids wh)) = warehouse_id wh"
  "transfer_priorities (fst (transfer_loop ids wh)) = transfer_priorities wh"
  "wh_uuids (fst (transfer_loop ids wh)) = wh_uuids wh"
  "products (work (wh_db (fst (transfer_loop ids wh)))) = products (work (wh_db wh))"
  by (induction ids arbitrary: wh)
     (simp_all add: transfer_loop_Cons transfer_step_frame del: transfer_loop.simps(2))






subsection \<open>The invariant of the two dictionaries\<close>

















subsection \<open>The queue\<close>









subsection \<open>The claim\<close>




end
